theory Spec2Isabelle
  imports Main
begin

section \<open>The hostingde provider: configuration resolution and client bootstrap\<close>

text \<open>
  A shallow embedding of \<^verbatim>\<open>hostingde/provider.go\<close>. The provider's \<^verbatim>\<open>Configure\<close>
  reads three optional string attributes and three environment variables, validates
  them, and publishes one API client. Everything \<^verbatim>\<open>Configure\<close> touches beyond its
  own body belongs to libraries (the plugin framework's \<^verbatim>\<open>types\<close>, \<^verbatim>\<open>diag\<close> and
  \<^verbatim>\<open>path\<close> packages, \<^verbatim>\<open>os\<close>, \<^verbatim>\<open>tflog\<close>); the part of their documented behaviour
  that \<^verbatim>\<open>Configure\<close> relies on is written out first.
\<close>

subsection \<open>Attribute values: \<^verbatim>\<open>types.String\<close>\<close>

text \<open>
  A string attribute is null (absent from the configuration), unknown (not yet computed)
  or known. \<^verbatim>\<open>ValueString\<close> returns the known value, and the empty string for a null
  or an unknown one.
\<close>

datatype types_String = StringNull | StringUnknown | StringValue string

fun IsNull :: "types_String \<Rightarrow> bool" where
  "IsNull StringNull = True"
| "IsNull StringUnknown = False"
| "IsNull (StringValue v) = False"

fun IsUnknown :: "types_String \<Rightarrow> bool" where
  "IsUnknown StringNull = False"
| "IsUnknown StringUnknown = True"
| "IsUnknown (StringValue v) = False"

fun ValueString :: "types_String \<Rightarrow> string" where
  "ValueString StringNull = ''''"
| "ValueString StringUnknown = ''''"
| "ValueString (StringValue v) = v"

subsection \<open>The process environment: \<^verbatim>\<open>os.Getenv\<close>\<close>

text \<open>
  The environment maps variable names to values. \<^verbatim>\<open>os.Getenv\<close> returns the empty
  string for a variable that is not set, so an unset variable and one set to the empty
  string read the same.
\<close>

type_synonym environ = "string \<rightharpoonup> string"

definition Getenv :: "environ \<Rightarrow> string \<Rightarrow> string" where
  "Getenv env key = (case env key of None \<Rightarrow> '''' | Some v \<Rightarrow> v)"

subsection \<open>Diagnostics: \<^verbatim>\<open>diag.Diagnostics\<close>\<close>

datatype severity = SeverityError | SeverityWarning

datatype attr_path = Root string

record diagnostic =
  Severity :: severity
  Path :: "attr_path option"
  Summary :: string
  Detail :: string

type_synonym Diagnostics = "diagnostic list"

text \<open>\<^verbatim>\<open>HasError\<close>: some diagnostic has error severity. \<^verbatim>\<open>Errors\<close>: those that have.\<close>

definition HasError :: "Diagnostics \<Rightarrow> bool" where
  "HasError diags = list_ex (\<lambda>d. Severity d = SeverityError) diags"

definition Errors :: "Diagnostics \<Rightarrow> Diagnostics" where
  "Errors diags = filter (\<lambda>d. Severity d = SeverityError) diags"

text \<open>\<^verbatim>\<open>Append\<close> adds each given diagnostic that the collection does not hold yet.\<close>

fun Append :: "Diagnostics \<Rightarrow> Diagnostics \<Rightarrow> Diagnostics" where
  "Append diags [] = diags"
| "Append diags (d # ins) = Append (if d \<in> set diags then diags else diags @ [d]) ins"

definition NewAttributeErrorDiagnostic :: "attr_path \<Rightarrow> string \<Rightarrow> string \<Rightarrow> diagnostic" where
  "NewAttributeErrorDiagnostic p s d =
     \<lparr>Severity = SeverityError, Path = Some p, Summary = s, Detail = d\<rparr>"

definition AddAttributeError :: "Diagnostics \<Rightarrow> attr_path \<Rightarrow> string \<Rightarrow> string \<Rightarrow> Diagnostics" where
  "AddAttributeError diags p s d = Append diags [NewAttributeErrorDiagnostic p s d]"

subsection \<open>Structured logging: \<^verbatim>\<open>tflog\<close>\<close>

text \<open>
  The logger travels in the \<^verbatim>\<open>context.Context\<close>. Of it, \<^verbatim>\<open>Configure\<close> uses the
  fields that every later entry carries (\<^verbatim>\<open>SetField\<close>) and the keys whose field values
  are masked (\<^verbatim>\<open>MaskFieldValuesWithFieldKeys\<close>). An entry is written from the context's
  fields merged with the call's own; the value of every field whose key is masked is
  replaced by three asterisks. The log is the list of entries a logger that writes
  every level receives.
\<close>

datatype field_value = StringField string | BoolField bool

record Context =
  Fields :: "string \<rightharpoonup> field_value"
  MaskKeys :: "string list"

datatype log_level = LevelDebug | LevelInfo

record log_entry =
  Level :: log_level
  Message :: string
  EntryFields :: "string \<rightharpoonup> field_value"

definition SetField :: "Context \<Rightarrow> string \<Rightarrow> field_value \<Rightarrow> Context" where
  "SetField ctx key v = ctx\<lparr>Fields := (Fields ctx)(key \<mapsto> v)\<rparr>"

definition MaskFieldValuesWithFieldKeys :: "Context \<Rightarrow> string list \<Rightarrow> Context" where
  "MaskFieldValuesWithFieldKeys ctx keys = ctx\<lparr>MaskKeys := MaskKeys ctx @ keys\<rparr>"

definition ApplyMask :: "string list \<Rightarrow> (string \<rightharpoonup> field_value) \<Rightarrow> (string \<rightharpoonup> field_value)" where
  "ApplyMask keys fs =
     (\<lambda>k. case fs k of
            None \<Rightarrow> None
          | Some v \<Rightarrow> Some (if k \<in> set keys then StringField ''***'' else v))"

definition Emit :: "log_level \<Rightarrow> Context \<Rightarrow> string \<Rightarrow> (string \<rightharpoonup> field_value) \<Rightarrow> log_entry" where
  "Emit lvl ctx msg additionalFields =
     \<lparr>Level = lvl, Message = msg,
      EntryFields = ApplyMask (MaskKeys ctx) (Fields ctx ++ additionalFields)\<rparr>"

definition Info :: "Context \<Rightarrow> string \<Rightarrow> (string \<rightharpoonup> field_value) \<Rightarrow> log_entry" where
  "Info ctx msg additionalFields = Emit LevelInfo ctx msg additionalFields"

definition Debug :: "Context \<Rightarrow> string \<Rightarrow> (string \<rightharpoonup> field_value) \<Rightarrow> log_entry" where
  "Debug ctx msg additionalFields = Emit LevelDebug ctx msg additionalFields"

subsection \<open>The provider\<close>

definition defaultBaseURL :: string where
  "defaultBaseURL = ''https://secure.hosting.de/api/dns/v1/json''"

record hostingdeProviderModel =
  AccountId :: types_String
  AuthToken :: types_String
  BaseUrl :: types_String

text \<open>
  Modelled from the spec: the client type is declared in a file of the repository that
  is not among the sources at hand. The spec has the client handle built from the
  resolved account id, auth token and base URL, so these are its fields.
\<close>

record Client =
  accountId :: string
  authToken :: string
  baseUrl :: string

text \<open>
  Modelled from the spec: \<^verbatim>\<open>NewClient\<close> is declared in the same missing file. The
  spec describes the construction as infallible, pure data capture with no network
  call, so the handle holds exactly the three arguments of the call.
\<close>

definition NewClient :: "string \<Rightarrow> string \<Rightarrow> string \<Rightarrow> Client" where
  "NewClient account_id auth_token base_url =
     \<lparr>accountId = account_id, authToken = auth_token, baseUrl = base_url\<rparr>"

text \<open>
  The request, as \<^verbatim>\<open>req.Config.Get\<close> decodes it: the model and the diagnostics of
  the decoding. The response holds the diagnostics and the two slots through which the
  client reaches the data sources and the resources; the framework hands \<^verbatim>\<open>Configure\<close>
  the zero response.
\<close>

record ConfigureRequest =
  Config :: hostingdeProviderModel
  ConfigGetDiags :: Diagnostics

record ConfigureResponse =
  Diagnostics :: Diagnostics
  DataSourceData :: "Client option"
  ResourceData :: "Client option"

definition ConfigureResponse_zero :: ConfigureResponse where
  "ConfigureResponse_zero = \<lparr>Diagnostics = [], DataSourceData = None, ResourceData = None\<rparr>"

text \<open>
  The detail texts of the three diagnostics, which the source writes in place as
  concatenated literals.
\<close>

definition unknown_account_id_detail :: string where
  "unknown_account_id_detail =
     ''The provider cannot create the hosting.de API client as there is an unknown configuration value for the hosting.de API account ID. '' @
     ''Either target apply the source of the value first, set the value statically in the configuration, or use the HOSTINGDE_ACCOUNT_ID environment variable.''"

definition unknown_auth_token_detail :: string where
  "unknown_auth_token_detail =
     ''The provider cannot create the hosting.de API client as there is an unknown configuration value for the hosting.de API auth token. '' @
     ''Either target apply the source of the value first, set the value statically in the configuration, or use the HOSTINGDE_AUTH_TOKEN environment variable.''"

definition missing_auth_token_detail :: string where
  "missing_auth_token_detail =
     ''The provider cannot create the hosting.de API client as there is a missing or empty value for the hosting.de API auth token. '' @
     ''Set the auth_token value in the configuration or use the HOSTINGDE_AUTH_TOKEN environment variable. '' @
     ''If either is already set, ensure the value is not empty.''"

text \<open>
  \<^verbatim>\<open>Configure\<close> returns the response it was handed, updated, and the log entries it
  wrote, in order. Each \<^verbatim>\<open>return\<close> of the source is one of the three early exits.
\<close>

definition Configure ::
  "environ \<Rightarrow> Context \<Rightarrow> ConfigureRequest \<Rightarrow> ConfigureResponse \<Rightarrow> ConfigureResponse \<times> log_entry list" where
  "Configure env ctx req resp =
    (let logged = [Info ctx ''Configuring hosting.de client'' Map.empty];
         config = Config req;
         diags = ConfigGetDiags req;
         resp = resp\<lparr>Diagnostics := Append (Diagnostics resp) diags\<rparr>
     in
     if HasError (Diagnostics resp) then (resp, logged)
     else
     let resp =
           (if IsUnknown (AccountId config)
            then resp\<lparr>Diagnostics := AddAttributeError (Diagnostics resp)
                   (Root ''account_id'')
                   ''Unknown hosting.de API account ID''
                   unknown_account_id_detail\<rparr>
            else resp);
         resp =
           (if IsUnknown (AuthToken config)
            then resp\<lparr>Diagnostics := AddAttributeError (Diagnostics resp)
                   (Root ''auth_token'')
                   ''Unknown hosting.de API auth token''
                   unknown_auth_token_detail\<rparr>
            else resp)
     in
     if HasError (Diagnostics resp) then (resp, logged)
     else
     let account_id = Getenv env ''HOSTINGDE_ACCOUNT_ID'';
         auth_token = Getenv env ''HOSTINGDE_AUTH_TOKEN'';
         base_url = Getenv env ''HOSTINGDE_BASE_URL'';
         account_id =
           (if \<not> IsNull (AccountId config) then ValueString (AccountId config) else account_id);
         auth_token =
           (if \<not> IsNull (AuthToken config) then ValueString (AuthToken config) else auth_token);
         base_url =
           (if \<not> IsNull (BaseUrl config) then ValueString (BaseUrl config) else base_url);
         base_url = (if base_url = '''' then defaultBaseURL else base_url);
         resp =
           (if auth_token = ''''
            then resp\<lparr>Diagnostics := AddAttributeError (Diagnostics resp)
                   (Root ''auth_token'')
                   ''Missing hosting.de API auth token''
                   missing_auth_token_detail\<rparr>
            else resp)
     in
     if HasError (Diagnostics resp) then (resp, logged)
     else
     let ctx = SetField ctx ''hostingde_account_id'' (StringField account_id);
         ctx = SetField ctx ''hostingde_auth_token'' (StringField auth_token);
         ctx = SetField ctx ''hostingde_base_url'' (StringField base_url);
         ctx = MaskFieldValuesWithFieldKeys ctx [''hostingde_auth_token''];
         logged = logged @ [Debug ctx ''Creating hosting.de client'' Map.empty];
         client = NewClient account_id auth_token base_url;
         resp = resp\<lparr>DataSourceData := Some client\<rparr>;
         resp = resp\<lparr>ResourceData := Some client\<rparr>;
         logged = logged @ [Info ctx ''Configured hosting.de client'' [''success'' \<mapsto> BoolField True]]
     in (resp, logged))"

subsection \<open>The capability lists\<close>

text \<open>
  Modelled from the spec: the constructors \<^verbatim>\<open>NewZoneResource\<close> and
  \<^verbatim>\<open>NewRecordResource\<close> are declared in files of the repository that are not among
  the sources at hand. \<^verbatim>\<open>Resources\<close> returns the two functions without calling them,
  so a constructor is modelled by its name: the DNS zone resource and the DNS record
  resource of the spec. \<^verbatim>\<open>DataSources\<close> returns \<^verbatim>\<open>nil\<close>, the slice with no
  element. The provider itself is a struct without fields.
\<close>

datatype resource_constructor = NewZoneResource | NewRecordResource

type_synonym hostingdeProvider = unit

definition DataSources :: "hostingdeProvider \<Rightarrow> 'datasource_constructor list" where
  "DataSources p = []"

definition Resources :: "hostingdeProvider \<Rightarrow> resource_constructor list" where
  "Resources p = [NewZoneResource, NewRecordResource]"

subsection \<open>The locals of \<^verbatim>\<open>Configure\<close>\<close>

text \<open>
  For the lemmas: the values of the locals \<^verbatim>\<open>account_id\<close>, \<^verbatim>\<open>auth_token\<close> and
  \<^verbatim>\<open>base_url\<close> where \<^verbatim>\<open>Configure\<close> tests the auth token, and the condition under
  which it passes all three early exits. The lemmas of the next section prove that
  \<^verbatim>\<open>Configure\<close> computes just these.
\<close>

definition local_account_id :: "environ \<Rightarrow> hostingdeProviderModel \<Rightarrow> string" where
  "local_account_id env config =
     (if \<not> IsNull (AccountId config) then ValueString (AccountId config)
      else Getenv env ''HOSTINGDE_ACCOUNT_ID'')"

definition local_auth_token :: "environ \<Rightarrow> hostingdeProviderModel \<Rightarrow> string" where
  "local_auth_token env config =
     (if \<not> IsNull (AuthToken config) then ValueString (AuthToken config)
      else Getenv env ''HOSTINGDE_AUTH_TOKEN'')"

definition local_base_url :: "environ \<Rightarrow> hostingdeProviderModel \<Rightarrow> string" where
  "local_base_url env config =
     (let base_url = (if \<not> IsNull (BaseUrl config) then ValueString (BaseUrl config)
                      else Getenv env ''HOSTINGDE_BASE_URL'')
      in if base_url = '''' then defaultBaseURL else base_url)"

definition reaches_client :: "environ \<Rightarrow> ConfigureRequest \<Rightarrow> bool" where
  "reaches_client env req \<longleftrightarrow>
     \<not> HasError (ConfigGetDiags req) \<and> \<not> IsUnknown (AccountId (Config req)) \<and>
     \<not> IsUnknown (AuthToken (Config req)) \<and> local_auth_token env (Config req) \<noteq> ''''"

section \<open>Lemmas about the diagnostics and about \<^verbatim>\<open>Configure\<close>\<close>

lemma set_Append: "set (Append ds ins) = set ds \<union> set ins"
  by (induction ins arbitrary: ds) auto

lemma HasError_iff: "HasError ds \<longleftrightarrow> (\<exists>d \<in> set ds. Severity d = SeverityError)"
  by (simp add: HasError_def list_ex_iff)

lemma HasError_Nil: "\<not> HasError []"
  by (simp add: HasError_def)

lemma HasError_Append: "HasError (Append ds ins) \<longleftrightarrow> HasError ds \<or> HasError ins"
  by (auto simp: HasError_iff set_Append)

lemma HasError_AddAttributeError: "HasError (AddAttributeError ds p s d)"
  unfolding AddAttributeError_def HasError_iff set_Append
  by (simp add: NewAttributeErrorDiagnostic_def)

lemma Errors_Nil: "Errors [] = []"
  by (simp add: Errors_def)

lemma Errors_Append_noerr: "\<not> HasError ins \<Longrightarrow> Errors (Append ds ins) = Errors ds"
  by (induction ins arbitrary: ds) (auto simp: HasError_def Errors_def)

lemma Errors_AddAttributeError:
  "Errors (AddAttributeError ds p s d) =
     (if NewAttributeErrorDiagnostic p s d \<in> set ds then Errors ds
      else Errors ds @ [NewAttributeErrorDiagnostic p s d])"
  by (simp add: AddAttributeError_def Errors_def NewAttributeErrorDiagnostic_def)

lemma noerr_notin: "\<not> HasError ds \<Longrightarrow> NewAttributeErrorDiagnostic p s d \<notin> set ds"
  by (auto simp: HasError_iff NewAttributeErrorDiagnostic_def)

lemma set_AddAttributeError:
  "set (AddAttributeError ds p s d) = insert (NewAttributeErrorDiagnostic p s d) (set ds)"
  by (auto simp: AddAttributeError_def)

lemma NewAttributeErrorDiagnostic_sel:
  "Severity (NewAttributeErrorDiagnostic p s d) = SeverityError"
  "Path (NewAttributeErrorDiagnostic p s d) = Some p"
  "Summary (NewAttributeErrorDiagnostic p s d) = s"
  "Detail (NewAttributeErrorDiagnostic p s d) = d"
  by (simp_all add: NewAttributeErrorDiagnostic_def)

lemma NewAttributeErrorDiagnostic_eq:
  "NewAttributeErrorDiagnostic p s d = NewAttributeErrorDiagnostic p' s' d' \<longleftrightarrow>
     p = p' \<and> s = s' \<and> d = d'"
  by (auto simp: NewAttributeErrorDiagnostic_def)

lemma HasError_append: "HasError (xs @ ys) \<longleftrightarrow> HasError xs \<or> HasError ys"
  by (simp add: HasError_def)

lemma HasError_Cons: "HasError (d # ds) \<longleftrightarrow> Severity d = SeverityError \<or> HasError ds"
  by (simp add: HasError_def)

lemma Errors_append: "Errors (xs @ ys) = Errors xs @ Errors ys"
  by (simp add: Errors_def)

lemma Errors_Cons:
  "Errors (d # ds) = (if Severity d = SeverityError then d # Errors ds else Errors ds)"
  by (simp add: Errors_def)

lemma AddAttributeError_new:
  "NewAttributeErrorDiagnostic p s d \<notin> set ds \<Longrightarrow>
     AddAttributeError ds p s d = ds @ [NewAttributeErrorDiagnostic p s d]"
  by (simp add: AddAttributeError_def)

lemmas diag_simps = HasError_Nil Errors_Nil HasError_Append HasError_AddAttributeError
  Errors_Append_noerr Errors_AddAttributeError noerr_notin set_AddAttributeError set_Append
  NewAttributeErrorDiagnostic_sel NewAttributeErrorDiagnostic_eq
  HasError_append HasError_Cons Errors_append Errors_Cons AddAttributeError_new

lemmas local_defs = local_account_id_def local_auth_token_def local_base_url_def reaches_client_def

text \<open>
  \<^verbatim>\<open>Configure\<close> on the zero response, one observable at a time: the two client slots,
  the diagnostics and the log. Each is proved by following the three early exits.
\<close>

lemma Configure_slots:
  "ResourceData (fst (Configure env ctx req ConfigureResponse_zero)) =
     (if reaches_client env req
      then Some (NewClient (local_account_id env (Config req)) (local_auth_token env (Config req))
                   (local_base_url env (Config req)))
      else None)"
  "DataSourceData (fst (Configure env ctx req ConfigureResponse_zero)) =
     ResourceData (fst (Configure env ctx req ConfigureResponse_zero))"
  by (cases "HasError (ConfigGetDiags req)"; cases "IsUnknown (AccountId (Config req))";
      cases "IsUnknown (AuthToken (Config req))";
      simp add: Configure_def Let_def ConfigureResponse_zero_def diag_simps local_defs)+

lemma Configure_Diagnostics:
  "Diagnostics (fst (Configure env ctx req ConfigureResponse_zero)) =
     (if HasError (ConfigGetDiags req) then Append [] (ConfigGetDiags req)
      else if IsUnknown (AccountId (Config req)) \<or> IsUnknown (AuthToken (Config req))
      then Append [] (ConfigGetDiags req) @
           (if IsUnknown (AccountId (Config req))
            then [NewAttributeErrorDiagnostic (Root ''account_id'')
                    ''Unknown hosting.de API account ID'' unknown_account_id_detail]
            else []) @
           (if IsUnknown (AuthToken (Config req))
            then [NewAttributeErrorDiagnostic (Root ''auth_token'')
                    ''Unknown hosting.de API auth token'' unknown_auth_token_detail]
            else [])
      else if local_auth_token env (Config req) = ''''
      then Append [] (ConfigGetDiags req) @
           [NewAttributeErrorDiagnostic (Root ''auth_token'')
              ''Missing hosting.de API auth token'' missing_auth_token_detail]
      else Append [] (ConfigGetDiags req))"
  by (cases "HasError (ConfigGetDiags req)"; cases "IsUnknown (AccountId (Config req))";
      cases "IsUnknown (AuthToken (Config req))";
      simp add: Configure_def Let_def ConfigureResponse_zero_def diag_simps local_defs)

lemma Configure_logged:
  "snd (Configure env ctx req ConfigureResponse_zero) =
     (if reaches_client env req
      then [Info ctx ''Configuring hosting.de client'' Map.empty,
            Debug (MaskFieldValuesWithFieldKeys
                    (SetField (SetField (SetField ctx
                       ''hostingde_account_id'' (StringField (local_account_id env (Config req))))
                       ''hostingde_auth_token'' (StringField (local_auth_token env (Config req))))
                       ''hostingde_base_url'' (StringField (local_base_url env (Config req))))
                    [''hostingde_auth_token''])
              ''Creating hosting.de client'' Map.empty,
            Info (MaskFieldValuesWithFieldKeys
                    (SetField (SetField (SetField ctx
                       ''hostingde_account_id'' (StringField (local_account_id env (Config req))))
                       ''hostingde_auth_token'' (StringField (local_auth_token env (Config req))))
                       ''hostingde_base_url'' (StringField (local_base_url env (Config req))))
                    [''hostingde_auth_token''])
              ''Configured hosting.de client'' [''success'' \<mapsto> BoolField True]]
      else [Info ctx ''Configuring hosting.de client'' Map.empty])"
  by (cases "HasError (ConfigGetDiags req)"; cases "IsUnknown (AccountId (Config req))";
      cases "IsUnknown (AuthToken (Config req))";
      simp add: Configure_def Let_def ConfigureResponse_zero_def diag_simps local_defs)

lemma Emit_masked:
  "Emit lvl (MaskFieldValuesWithFieldKeys
       (SetField (SetField (SetField ctx k1 v1) k2 (StringField t)) k3 v3) [k2]) msg extra =
   \<lparr>Level = lvl, Message = msg,
    EntryFields = ApplyMask (MaskKeys ctx @ [k2])
      ((Fields ctx)(k1 \<mapsto> v1, k2 \<mapsto> StringField ''***'', k3 \<mapsto> v3) ++ extra)\<rparr>"
  by (auto simp: Emit_def MaskFieldValuesWithFieldKeys_def SetField_def ApplyMask_def fun_eq_iff
        map_add_def split: option.splits)

lemma local_account_id_token_indep:
  "local_account_id (env(''HOSTINGDE_AUTH_TOKEN'' := x)) (cfg\<lparr>AuthToken := s\<rparr>) =
     local_account_id env cfg"
  by (simp add: local_account_id_def Getenv_def)

lemma local_base_url_token_indep:
  "local_base_url (env(''HOSTINGDE_AUTH_TOKEN'' := x)) (cfg\<lparr>AuthToken := s\<rparr>) =
     local_base_url env cfg"
  by (simp add: local_base_url_def Getenv_def)

lemma Configure_HasError:
  "HasError (Diagnostics (fst (Configure env ctx req ConfigureResponse_zero))) \<longleftrightarrow>
     \<not> reaches_client env req"
  by (simp add: Configure_Diagnostics diag_simps reaches_client_def)

lemma Configure_Errors:
  assumes "\<not> HasError (ConfigGetDiags req)"
  shows "map (\<lambda>d. (Path d, Summary d))
           (Errors (Diagnostics (fst (Configure env ctx req ConfigureResponse_zero)))) =
         (if IsUnknown (AccountId (Config req)) \<or> IsUnknown (AuthToken (Config req))
          then (if IsUnknown (AccountId (Config req))
                then [(Some (Root ''account_id''), ''Unknown hosting.de API account ID'')] else []) @
               (if IsUnknown (AuthToken (Config req))
                then [(Some (Root ''auth_token''), ''Unknown hosting.de API auth token'')] else [])
          else if local_auth_token env (Config req) = ''''
          then [(Some (Root ''auth_token''), ''Missing hosting.de API auth token'')]
          else [])"
  using assms by (simp add: Configure_Diagnostics diag_simps)

lemmas eval_defs = Configure_def Let_def ConfigureResponse_zero_def HasError_def Errors_def
  AddAttributeError_def NewAttributeErrorDiagnostic_def NewClient_def Getenv_def defaultBaseURL_def

section \<open>The properties of the specification\<close>

text \<open>
  Throughout, resolution is \<^verbatim>\<open>Configure\<close> run on the zero response, and the resolved
  values are the arguments with which it builds the client. Where a property speaks of
  the declared configuration, the decoding of the request is taken to have reported no
  error, since only then is there a configuration to speak of.
\<close>

text \<open>
  C1 (as amended). Whenever resolution produces a client: a known account id in the
  configuration is the resolved account id, a known auth token is the resolved auth
  token, and a known base URL is the resolved base URL unless it is the empty string, in
  which case the resolved base URL is the default endpoint. None of this depends on the
  environment, which is arbitrary here.
\<close>

theorem Configure_known_config_wins:
  assumes "ResourceData (fst (Configure env ctx req ConfigureResponse_zero)) = Some c"
  shows "(\<forall>v. AccountId (Config req) = StringValue v \<longrightarrow> accountId c = v)
       \<and> (\<forall>v. AuthToken (Config req) = StringValue v \<longrightarrow> authToken c = v)
       \<and> (\<forall>v. BaseUrl (Config req) = StringValue v \<longrightarrow>
              baseUrl c = (if v = '''' then ''https://secure.hosting.de/api/dns/v1/json'' else v))"
proof -
  from assms have c: "c = NewClient (local_account_id env (Config req))
      (local_auth_token env (Config req)) (local_base_url env (Config req))"
    by (simp add: Configure_slots split: if_splits)
  show ?thesis
    by (simp add: c NewClient_def local_defs defaultBaseURL_def)
qed

text \<open>
  An instance: all three attributes are configured and all three variables are set to
  other values; the client carries the configured ones.
\<close>

theorem Configure_known_config_wins_witness:
  "map_option accountId (ResourceData (fst (Configure
      [''HOSTINGDE_ACCOUNT_ID'' \<mapsto> ''envacc'', ''HOSTINGDE_AUTH_TOKEN'' \<mapsto> ''envtok'',
       ''HOSTINGDE_BASE_URL'' \<mapsto> ''https://env.example/api'']
      \<lparr>Fields = Map.empty, MaskKeys = []\<rparr>
      \<lparr>Config = \<lparr>AccountId = StringValue ''acc1'', AuthToken = StringValue ''tok1'',
                  BaseUrl = StringValue ''https://cfg.example/api''\<rparr>,
       ConfigGetDiags = []\<rparr>
      ConfigureResponse_zero))) = Some ''acc1''
   \<and> map_option authToken (ResourceData (fst (Configure
      [''HOSTINGDE_ACCOUNT_ID'' \<mapsto> ''envacc'', ''HOSTINGDE_AUTH_TOKEN'' \<mapsto> ''envtok'',
       ''HOSTINGDE_BASE_URL'' \<mapsto> ''https://env.example/api'']
      \<lparr>Fields = Map.empty, MaskKeys = []\<rparr>
      \<lparr>Config = \<lparr>AccountId = StringValue ''acc1'', AuthToken = StringValue ''tok1'',
                  BaseUrl = StringValue ''https://cfg.example/api''\<rparr>,
       ConfigGetDiags = []\<rparr>
      ConfigureResponse_zero))) = Some ''tok1''
   \<and> map_option baseUrl (ResourceData (fst (Configure
      [''HOSTINGDE_ACCOUNT_ID'' \<mapsto> ''envacc'', ''HOSTINGDE_AUTH_TOKEN'' \<mapsto> ''envtok'',
       ''HOSTINGDE_BASE_URL'' \<mapsto> ''https://env.example/api'']
      \<lparr>Fields = Map.empty, MaskKeys = []\<rparr>
      \<lparr>Config = \<lparr>AccountId = StringValue ''acc1'', AuthToken = StringValue ''tok1'',
                  BaseUrl = StringValue ''https://cfg.example/api''\<rparr>,
       ConfigGetDiags = []\<rparr>
      ConfigureResponse_zero))) = Some ''https://cfg.example/api''"
proof -
  let ?env = "[''HOSTINGDE_ACCOUNT_ID'' \<mapsto> ''envacc'', ''HOSTINGDE_AUTH_TOKEN'' \<mapsto> ''envtok'',
       ''HOSTINGDE_BASE_URL'' \<mapsto> ''https://env.example/api'']"
  let ?ctx = "\<lparr>Fields = Map.empty, MaskKeys = []\<rparr>"
  let ?req = "\<lparr>Config = \<lparr>AccountId = StringValue ''acc1'', AuthToken = StringValue ''tok1'',
                  BaseUrl = StringValue ''https://cfg.example/api''\<rparr>,
       ConfigGetDiags = []\<rparr>"
  obtain c where h: "ResourceData (fst (Configure ?env ?ctx ?req ConfigureResponse_zero)) = Some c"
    by (simp add: eval_defs)
  from Configure_known_config_wins [OF h]
  have "accountId c = ''acc1''" "authToken c = ''tok1''" "baseUrl c = ''https://cfg.example/api''"
    by simp_all
  with h show ?thesis by simp
qed

text \<open>
  C1 as stated fails for the base URL. A configured base URL that is the empty string is
  present, yet the resolved base URL is the default endpoint, not the configured value.
\<close>

theorem Configure_empty_base_url_counterexample:
  "map_option baseUrl (ResourceData (fst (Configure Map.empty
      \<lparr>Fields = Map.empty, MaskKeys = []\<rparr>
      \<lparr>Config = \<lparr>AccountId = StringValue ''acc1'', AuthToken = StringValue ''tok1'',
                  BaseUrl = StringValue ''''\<rparr>,
       ConfigGetDiags = []\<rparr>
      ConfigureResponse_zero))) = Some ''https://secure.hosting.de/api/dns/v1/json''
   \<and> map_option baseUrl (ResourceData (fst (Configure Map.empty
      \<lparr>Fields = Map.empty, MaskKeys = []\<rparr>
      \<lparr>Config = \<lparr>AccountId = StringValue ''acc1'', AuthToken = StringValue ''tok1'',
                  BaseUrl = StringValue ''''\<rparr>,
       ConfigGetDiags = []\<rparr>
      ConfigureResponse_zero))) \<noteq> Some ''''"
  by (simp add: eval_defs)

text \<open>
  C2 (as amended). When \<^verbatim>\<open>HOSTINGDE_AUTH_TOKEN\<close> is unset or empty, a configured auth
  token that is the empty string gives the very outcome of an absent one (the same
  response and the same log). Whatever the environment, a configured empty auth token
  yields no client.
\<close>

theorem Configure_empty_token_like_absent:
  "(Getenv env ''HOSTINGDE_AUTH_TOKEN'' = '''' \<longrightarrow>
      Configure env ctx (req\<lparr>Config := (Config req)\<lparr>AuthToken := StringValue ''''\<rparr>\<rparr>)
        ConfigureResponse_zero =
      Configure env ctx (req\<lparr>Config := (Config req)\<lparr>AuthToken := StringNull\<rparr>\<rparr>)
        ConfigureResponse_zero)
   \<and> ResourceData (fst (Configure env ctx
         (req\<lparr>Config := (Config req)\<lparr>AuthToken := StringValue ''''\<rparr>\<rparr>)
         ConfigureResponse_zero)) = None
   \<and> DataSourceData (fst (Configure env ctx
         (req\<lparr>Config := (Config req)\<lparr>AuthToken := StringValue ''''\<rparr>\<rparr>)
         ConfigureResponse_zero)) = None"
proof (intro conjI impI)
  assume "Getenv env ''HOSTINGDE_AUTH_TOKEN'' = ''''"
  then show "Configure env ctx (req\<lparr>Config := (Config req)\<lparr>AuthToken := StringValue ''''\<rparr>\<rparr>)
        ConfigureResponse_zero =
      Configure env ctx (req\<lparr>Config := (Config req)\<lparr>AuthToken := StringNull\<rparr>\<rparr>)
        ConfigureResponse_zero"
    by (simp add: Configure_def Let_def diag_simps)
qed (simp_all add: Configure_slots local_defs)

text \<open>An instance with the variable unset.\<close>

theorem Configure_empty_token_like_absent_witness:
  "Getenv Map.empty ''HOSTINGDE_AUTH_TOKEN'' = ''''
   \<and> Configure Map.empty \<lparr>Fields = Map.empty, MaskKeys = []\<rparr>
       \<lparr>Config = \<lparr>AccountId = StringValue ''acc1'', AuthToken = StringValue '''',
                   BaseUrl = StringNull\<rparr>, ConfigGetDiags = []\<rparr> ConfigureResponse_zero =
     Configure Map.empty \<lparr>Fields = Map.empty, MaskKeys = []\<rparr>
       \<lparr>Config = \<lparr>AccountId = StringValue ''acc1'', AuthToken = StringNull,
                   BaseUrl = StringNull\<rparr>, ConfigGetDiags = []\<rparr> ConfigureResponse_zero
   \<and> ResourceData (fst (Configure Map.empty \<lparr>Fields = Map.empty, MaskKeys = []\<rparr>
       \<lparr>Config = \<lparr>AccountId = StringValue ''acc1'', AuthToken = StringValue '''',
                   BaseUrl = StringNull\<rparr>, ConfigGetDiags = []\<rparr> ConfigureResponse_zero)) = None"
proof -
  have h: "Getenv Map.empty ''HOSTINGDE_AUTH_TOKEN'' = ''''"
    by (simp add: Getenv_def)
  note t = Configure_empty_token_like_absent
      [of Map.empty "\<lparr>Fields = Map.empty, MaskKeys = []\<rparr>"
          "\<lparr>Config = \<lparr>AccountId = StringValue ''acc1'', AuthToken = StringNull,
                   BaseUrl = StringNull\<rparr>, ConfigGetDiags = []\<rparr>"]
  from t h have e: "Configure Map.empty \<lparr>Fields = Map.empty, MaskKeys = []\<rparr>
       \<lparr>Config = \<lparr>AccountId = StringValue ''acc1'', AuthToken = StringValue '''',
                   BaseUrl = StringNull\<rparr>, ConfigGetDiags = []\<rparr> ConfigureResponse_zero =
     Configure Map.empty \<lparr>Fields = Map.empty, MaskKeys = []\<rparr>
       \<lparr>Config = \<lparr>AccountId = StringValue ''acc1'', AuthToken = StringNull,
                   BaseUrl = StringNull\<rparr>, ConfigGetDiags = []\<rparr> ConfigureResponse_zero"
    by simp
  from t have n: "ResourceData (fst (Configure Map.empty \<lparr>Fields = Map.empty, MaskKeys = []\<rparr>
       \<lparr>Config = \<lparr>AccountId = StringValue ''acc1'', AuthToken = StringValue '''',
                   BaseUrl = StringNull\<rparr>, ConfigGetDiags = []\<rparr> ConfigureResponse_zero)) = None"
    by simp
  from h e n show ?thesis by (intro conjI)
qed

text \<open>
  C2 as stated fails when the variable holds a token: the configured empty string
  overrides it and resolution fails, while an absent attribute takes the variable's
  value and resolution succeeds.
\<close>

theorem Configure_empty_token_env_set_counterexample:
  "ResourceData (fst (Configure [''HOSTINGDE_AUTH_TOKEN'' \<mapsto> ''tok2'']
       \<lparr>Fields = Map.empty, MaskKeys = []\<rparr>
       \<lparr>Config = \<lparr>AccountId = StringNull, AuthToken = StringValue '''', BaseUrl = StringNull\<rparr>,
        ConfigGetDiags = []\<rparr> ConfigureResponse_zero)) = None
   \<and> ResourceData (fst (Configure [''HOSTINGDE_AUTH_TOKEN'' \<mapsto> ''tok2'']
       \<lparr>Fields = Map.empty, MaskKeys = []\<rparr>
       \<lparr>Config = \<lparr>AccountId = StringNull, AuthToken = StringNull, BaseUrl = StringNull\<rparr>,
        ConfigGetDiags = []\<rparr> ConfigureResponse_zero)) =
     Some \<lparr>accountId = '''', authToken = ''tok2'',
           baseUrl = ''https://secure.hosting.de/api/dns/v1/json''\<rparr>"
  by (simp add: eval_defs)

text \<open>
  C3 (as amended). The two unknown-value checks are collected: when account id and auth
  token are both unknown, both errors are reported, in that order. The
  missing-auth-token check runs only after \<^verbatim>\<open>Configure\<close> has returned on any
  unknown-value error, so an unknown account id alone yields exactly its own error,
  whatever the auth token and the environment are; likewise an unknown auth token alone.
\<close>

theorem Configure_error_accumulation:
  assumes "\<not> HasError (ConfigGetDiags req)"
  shows "(IsUnknown (AccountId (Config req)) \<and> IsUnknown (AuthToken (Config req)) \<longrightarrow>
            map (\<lambda>d. (Path d, Summary d))
              (Errors (Diagnostics (fst (Configure env ctx req ConfigureResponse_zero)))) =
              [(Some (Root ''account_id''), ''Unknown hosting.de API account ID''),
               (Some (Root ''auth_token''), ''Unknown hosting.de API auth token'')])
       \<and> (IsUnknown (AccountId (Config req)) \<and> \<not> IsUnknown (AuthToken (Config req)) \<longrightarrow>
            map (\<lambda>d. (Path d, Summary d))
              (Errors (Diagnostics (fst (Configure env ctx req ConfigureResponse_zero)))) =
              [(Some (Root ''account_id''), ''Unknown hosting.de API account ID'')])
       \<and> (\<not> IsUnknown (AccountId (Config req)) \<and> IsUnknown (AuthToken (Config req)) \<longrightarrow>
            map (\<lambda>d. (Path d, Summary d))
              (Errors (Diagnostics (fst (Configure env ctx req ConfigureResponse_zero)))) =
              [(Some (Root ''auth_token''), ''Unknown hosting.de API auth token'')])"
  by (simp add: Configure_Errors [OF assms])

text \<open>An instance with both attributes unknown.\<close>

theorem Configure_error_accumulation_witness:
  "\<not> HasError []
   \<and> map (\<lambda>d. (Path d, Summary d))
       (Errors (Diagnostics (fst (Configure Map.empty \<lparr>Fields = Map.empty, MaskKeys = []\<rparr>
          \<lparr>Config = \<lparr>AccountId = StringUnknown, AuthToken = StringUnknown, BaseUrl = StringNull\<rparr>,
           ConfigGetDiags = []\<rparr> ConfigureResponse_zero)))) =
       [(Some (Root ''account_id''), ''Unknown hosting.de API account ID''),
        (Some (Root ''auth_token''), ''Unknown hosting.de API auth token'')]"
proof -
  have h: "\<not> HasError (ConfigGetDiags
      \<lparr>Config = \<lparr>AccountId = StringUnknown, AuthToken = StringUnknown, BaseUrl = StringNull\<rparr>,
       ConfigGetDiags = []\<rparr>)"
    by (simp add: HasError_def)
  show ?thesis
    using h Configure_error_accumulation [OF h, of Map.empty "\<lparr>Fields = Map.empty, MaskKeys = []\<rparr>"]
    by simp
qed

text \<open>
  C3 as stated fails on its own example: with the account id unknown and the auth token
  missing from configuration and environment, the only diagnostic is the unknown-value
  error of the account id.
\<close>

theorem Configure_unknown_account_missing_token_counterexample:
  "map Summary (Diagnostics (fst (Configure Map.empty \<lparr>Fields = Map.empty, MaskKeys = []\<rparr>
      \<lparr>Config = \<lparr>AccountId = StringUnknown, AuthToken = StringNull, BaseUrl = StringNull\<rparr>,
       ConfigGetDiags = []\<rparr> ConfigureResponse_zero))) =
     [''Unknown hosting.de API account ID'']"
  by (simp add: eval_defs)

text \<open>
  C4. Whenever resolution succeeds, that is, a client is stored in either slot, its auth
  token and its base URL are not the empty string.
\<close>

theorem Configure_success_nonempty:
  assumes "ResourceData (fst (Configure env ctx req ConfigureResponse_zero)) = Some c
         \<or> DataSourceData (fst (Configure env ctx req ConfigureResponse_zero)) = Some c"
  shows "authToken c \<noteq> '''' \<and> baseUrl c \<noteq> ''''"
proof -
  from assms have r: "reaches_client env req"
    and c: "c = NewClient (local_account_id env (Config req))
      (local_auth_token env (Config req)) (local_base_url env (Config req))"
    by (auto simp: Configure_slots split: if_splits)
  from r have "local_auth_token env (Config req) \<noteq> ''''"
    by (simp add: reaches_client_def)
  moreover have "local_base_url env (Config req) \<noteq> ''''"
    by (simp add: local_base_url_def Let_def defaultBaseURL_def)
  ultimately show ?thesis
    by (simp add: c NewClient_def)
qed

text \<open>An instance: nothing configured, the auth token taken from the environment.\<close>

theorem Configure_success_nonempty_witness:
  "ResourceData (fst (Configure [''HOSTINGDE_AUTH_TOKEN'' \<mapsto> ''tok2'']
       \<lparr>Fields = Map.empty, MaskKeys = []\<rparr>
       \<lparr>Config = \<lparr>AccountId = StringNull, AuthToken = StringNull, BaseUrl = StringNull\<rparr>,
        ConfigGetDiags = []\<rparr> ConfigureResponse_zero)) =
     Some \<lparr>accountId = '''', authToken = ''tok2'',
           baseUrl = ''https://secure.hosting.de/api/dns/v1/json''\<rparr>
   \<and> authToken \<lparr>accountId = '''', authToken = ''tok2'',
           baseUrl = ''https://secure.hosting.de/api/dns/v1/json''\<rparr> \<noteq> ''''
   \<and> baseUrl \<lparr>accountId = '''', authToken = ''tok2'',
           baseUrl = ''https://secure.hosting.de/api/dns/v1/json''\<rparr> \<noteq> ''''"
proof -
  have h: "ResourceData (fst (Configure [''HOSTINGDE_AUTH_TOKEN'' \<mapsto> ''tok2'']
       \<lparr>Fields = Map.empty, MaskKeys = []\<rparr>
       \<lparr>Config = \<lparr>AccountId = StringNull, AuthToken = StringNull, BaseUrl = StringNull\<rparr>,
        ConfigGetDiags = []\<rparr> ConfigureResponse_zero)) =
     Some \<lparr>accountId = '''', authToken = ''tok2'',
           baseUrl = ''https://secure.hosting.de/api/dns/v1/json''\<rparr>"
    by (simp add: eval_defs)
  from Configure_success_nonempty [OF disjI1, OF h] h show ?thesis
    by (intro conjI) simp_all
qed

text \<open>
  C5. If the configured base URL is absent or the empty string, and
  \<^verbatim>\<open>HOSTINGDE_BASE_URL\<close> is unset or empty, then the base URL of the client is the
  default endpoint, character for character.
\<close>

theorem Configure_default_base_url:
  assumes "BaseUrl (Config req) = StringNull \<or> BaseUrl (Config req) = StringValue ''''"
    and "env ''HOSTINGDE_BASE_URL'' = None \<or> env ''HOSTINGDE_BASE_URL'' = Some ''''"
    and "ResourceData (fst (Configure env ctx req ConfigureResponse_zero)) = Some c"
  shows "baseUrl c = ''https://secure.hosting.de/api/dns/v1/json'' \<and> baseUrl c = defaultBaseURL"
proof -
  from assms(3) have c: "c = NewClient (local_account_id env (Config req))
      (local_auth_token env (Config req)) (local_base_url env (Config req))"
    by (simp add: Configure_slots split: if_splits)
  from assms(1,2) have "local_base_url env (Config req) = defaultBaseURL"
    by (auto simp: local_base_url_def Getenv_def)
  then show ?thesis
    by (simp add: c NewClient_def defaultBaseURL_def)
qed

text \<open>An instance: the base URL configured empty and the variable set to the empty string.\<close>

theorem Configure_default_base_url_witness:
  "(BaseUrl \<lparr>AccountId = StringValue ''acc1'', AuthToken = StringValue ''tok1'',
              BaseUrl = StringValue ''''\<rparr> = StringNull
      \<or> BaseUrl \<lparr>AccountId = StringValue ''acc1'', AuthToken = StringValue ''tok1'',
              BaseUrl = StringValue ''''\<rparr> = StringValue '''')
   \<and> ([''HOSTINGDE_BASE_URL'' \<mapsto> ''''] ''HOSTINGDE_BASE_URL'' = None
      \<or> [''HOSTINGDE_BASE_URL'' \<mapsto> ''''] ''HOSTINGDE_BASE_URL'' = Some '''')
   \<and> map_option baseUrl (ResourceData (fst (Configure [''HOSTINGDE_BASE_URL'' \<mapsto> '''']
       \<lparr>Fields = Map.empty, MaskKeys = []\<rparr>
       \<lparr>Config = \<lparr>AccountId = StringValue ''acc1'', AuthToken = StringValue ''tok1'',
                   BaseUrl = StringValue ''''\<rparr>,
        ConfigGetDiags = []\<rparr> ConfigureResponse_zero))) =
     Some ''https://secure.hosting.de/api/dns/v1/json''"
proof -
  let ?env = "[''HOSTINGDE_BASE_URL'' \<mapsto> ''''] :: environ"
  let ?req = "\<lparr>Config = \<lparr>AccountId = StringValue ''acc1'', AuthToken = StringValue ''tok1'',
                   BaseUrl = StringValue ''''\<rparr>, ConfigGetDiags = []\<rparr>"
  have h1: "BaseUrl (Config ?req) = StringNull \<or> BaseUrl (Config ?req) = StringValue ''''"
    by simp
  have h2: "?env ''HOSTINGDE_BASE_URL'' = None \<or> ?env ''HOSTINGDE_BASE_URL'' = Some ''''"
    by simp
  obtain c where h3: "ResourceData (fst (Configure ?env \<lparr>Fields = Map.empty, MaskKeys = []\<rparr>
      ?req ConfigureResponse_zero)) = Some c"
    by (simp add: eval_defs)
  from Configure_default_base_url [OF h1 h2 h3]
  have "baseUrl c = ''https://secure.hosting.de/api/dns/v1/json''" by simp
  with h3 show ?thesis by simp
qed

text \<open>
  C6. If the account id is unknown, the diagnostics hold an error on the path
  \<^verbatim>\<open>account_id\<close> with the unknown-account-id summary, and neither slot holds a client;
  the same for an unknown auth token and the path \<^verbatim>\<open>auth_token\<close>.
\<close>

theorem Configure_unknown_value_guard:
  assumes "\<not> HasError (ConfigGetDiags req)"
  shows "(IsUnknown (AccountId (Config req)) \<longrightarrow>
           (\<exists>d \<in> set (Diagnostics (fst (Configure env ctx req ConfigureResponse_zero))).
              Severity d = SeverityError \<and> Path d = Some (Root ''account_id'') \<and>
              Summary d = ''Unknown hosting.de API account ID'') \<and>
           ResourceData (fst (Configure env ctx req ConfigureResponse_zero)) = None \<and>
           DataSourceData (fst (Configure env ctx req ConfigureResponse_zero)) = None)
       \<and> (IsUnknown (AuthToken (Config req)) \<longrightarrow>
           (\<exists>d \<in> set (Diagnostics (fst (Configure env ctx req ConfigureResponse_zero))).
              Severity d = SeverityError \<and> Path d = Some (Root ''auth_token'') \<and>
              Summary d = ''Unknown hosting.de API auth token'') \<and>
           ResourceData (fst (Configure env ctx req ConfigureResponse_zero)) = None \<and>
           DataSourceData (fst (Configure env ctx req ConfigureResponse_zero)) = None)"
  using assms
  by (simp add: Configure_Diagnostics Configure_slots reaches_client_def
        NewAttributeErrorDiagnostic_sel)

text \<open>
  An instance: the auth token is unknown although the environment holds one; the one
  diagnostic is the unknown-value error on \<^verbatim>\<open>auth_token\<close>.
\<close>

theorem Configure_unknown_value_guard_witness:
  "\<not> HasError []
   \<and> IsUnknown (AuthToken
        \<lparr>AccountId = StringValue ''acc1'', AuthToken = StringUnknown, BaseUrl = StringNull\<rparr>)
   \<and> map (\<lambda>d. (Severity d, Path d, Summary d))
       (Diagnostics (fst (Configure [''HOSTINGDE_AUTH_TOKEN'' \<mapsto> ''tok2'']
          \<lparr>Fields = Map.empty, MaskKeys = []\<rparr>
          \<lparr>Config = \<lparr>AccountId = StringValue ''acc1'', AuthToken = StringUnknown,
                      BaseUrl = StringNull\<rparr>,
           ConfigGetDiags = []\<rparr> ConfigureResponse_zero))) =
       [(SeverityError, Some (Root ''auth_token''), ''Unknown hosting.de API auth token'')]
   \<and> ResourceData (fst (Configure [''HOSTINGDE_AUTH_TOKEN'' \<mapsto> ''tok2'']
          \<lparr>Fields = Map.empty, MaskKeys = []\<rparr>
          \<lparr>Config = \<lparr>AccountId = StringValue ''acc1'', AuthToken = StringUnknown,
                      BaseUrl = StringNull\<rparr>,
           ConfigGetDiags = []\<rparr> ConfigureResponse_zero)) = None
   \<and> DataSourceData (fst (Configure [''HOSTINGDE_AUTH_TOKEN'' \<mapsto> ''tok2'']
          \<lparr>Fields = Map.empty, MaskKeys = []\<rparr>
          \<lparr>Config = \<lparr>AccountId = StringValue ''acc1'', AuthToken = StringUnknown,
                      BaseUrl = StringNull\<rparr>,
           ConfigGetDiags = []\<rparr> ConfigureResponse_zero)) = None"
proof -
  let ?req = "\<lparr>Config = \<lparr>AccountId = StringValue ''acc1'', AuthToken = StringUnknown,
                      BaseUrl = StringNull\<rparr>, ConfigGetDiags = []\<rparr>"
  have h: "\<not> HasError (ConfigGetDiags ?req)"
    by (simp add: HasError_def)
  have u: "IsUnknown (AuthToken (Config ?req))"
    by simp
  have d: "map (\<lambda>d. (Severity d, Path d, Summary d))
       (Diagnostics (fst (Configure [''HOSTINGDE_AUTH_TOKEN'' \<mapsto> ''tok2'']
          \<lparr>Fields = Map.empty, MaskKeys = []\<rparr> ?req ConfigureResponse_zero))) =
       [(SeverityError, Some (Root ''auth_token''), ''Unknown hosting.de API auth token'')]"
    by (simp add: eval_defs)
  from Configure_unknown_value_guard [OF h, of "[''HOSTINGDE_AUTH_TOKEN'' \<mapsto> ''tok2'']"
      "\<lparr>Fields = Map.empty, MaskKeys = []\<rparr>"] u
  have n: "ResourceData (fst (Configure [''HOSTINGDE_AUTH_TOKEN'' \<mapsto> ''tok2'']
          \<lparr>Fields = Map.empty, MaskKeys = []\<rparr> ?req ConfigureResponse_zero)) = None"
      "DataSourceData (fst (Configure [''HOSTINGDE_AUTH_TOKEN'' \<mapsto> ''tok2'']
          \<lparr>Fields = Map.empty, MaskKeys = []\<rparr> ?req ConfigureResponse_zero)) = None"
    by simp_all
  from h u d n show ?thesis by simp
qed

text \<open>
  C7. If the returned diagnostics hold an error, both client slots are unset: a client
  and an error diagnostic are never returned together. This holds for every request,
  also one whose decoding failed.
\<close>

theorem Configure_no_client_with_errors:
  assumes "HasError (Diagnostics (fst (Configure env ctx req ConfigureResponse_zero)))"
  shows "ResourceData (fst (Configure env ctx req ConfigureResponse_zero)) = None
       \<and> DataSourceData (fst (Configure env ctx req ConfigureResponse_zero)) = None"
  using assms by (simp add: Configure_HasError Configure_slots)

text \<open>An instance: nothing configured and nothing in the environment.\<close>

theorem Configure_no_client_with_errors_witness:
  "HasError (Diagnostics (fst (Configure Map.empty \<lparr>Fields = Map.empty, MaskKeys = []\<rparr>
      \<lparr>Config = \<lparr>AccountId = StringNull, AuthToken = StringNull, BaseUrl = StringNull\<rparr>,
       ConfigGetDiags = []\<rparr> ConfigureResponse_zero)))
   \<and> ResourceData (fst (Configure Map.empty \<lparr>Fields = Map.empty, MaskKeys = []\<rparr>
      \<lparr>Config = \<lparr>AccountId = StringNull, AuthToken = StringNull, BaseUrl = StringNull\<rparr>,
       ConfigGetDiags = []\<rparr> ConfigureResponse_zero)) = None
   \<and> DataSourceData (fst (Configure Map.empty \<lparr>Fields = Map.empty, MaskKeys = []\<rparr>
      \<lparr>Config = \<lparr>AccountId = StringNull, AuthToken = StringNull, BaseUrl = StringNull\<rparr>,
       ConfigGetDiags = []\<rparr> ConfigureResponse_zero)) = None"
proof -
  have h: "HasError (Diagnostics (fst (Configure Map.empty \<lparr>Fields = Map.empty, MaskKeys = []\<rparr>
      \<lparr>Config = \<lparr>AccountId = StringNull, AuthToken = StringNull, BaseUrl = StringNull\<rparr>,
       ConfigGetDiags = []\<rparr> ConfigureResponse_zero)))"
    by (simp add: eval_defs)
  from h Configure_no_client_with_errors [OF h] show ?thesis
    by (intro conjI) simp_all
qed

text \<open>
  C8 (as amended). The diagnostics and the log do not depend on the auth token's value,
  and the field that carries the token is masked. Replace the configured auth token and
  the value of \<^verbatim>\<open>HOSTINGDE_AUTH_TOKEN\<close> by any others, such that the configured token
  is unknown in both cases or in neither, and the token that \<^verbatim>\<open>Configure\<close> reads (the
  configured one unless it is null, else the variable's) is empty in both cases or in
  neither: the diagnostics and the log entries stay the same, so they carry nothing of
  the token but whether one was supplied. Moreover, if the incoming context has no
  field \<^verbatim>\<open>hostingde_auth_token\<close>, every log entry either lacks that field or shows the
  mask for it. The other fields are written as they are, whatever they hold.
\<close>

theorem Configure_auth_token_redacted:
  assumes "IsUnknown s = IsUnknown (AuthToken (Config req))"
    and "((if \<not> IsNull s then ValueString s
           else Getenv (env(''HOSTINGDE_AUTH_TOKEN'' := x)) ''HOSTINGDE_AUTH_TOKEN'') = '''') =
         ((if \<not> IsNull (AuthToken (Config req)) then ValueString (AuthToken (Config req))
           else Getenv env ''HOSTINGDE_AUTH_TOKEN'') = '''')"
  shows "Diagnostics (fst (Configure (env(''HOSTINGDE_AUTH_TOKEN'' := x)) ctx
             (req\<lparr>Config := (Config req)\<lparr>AuthToken := s\<rparr>\<rparr>) ConfigureResponse_zero)) =
         Diagnostics (fst (Configure env ctx req ConfigureResponse_zero))
       \<and> snd (Configure (env(''HOSTINGDE_AUTH_TOKEN'' := x)) ctx
             (req\<lparr>Config := (Config req)\<lparr>AuthToken := s\<rparr>\<rparr>) ConfigureResponse_zero) =
         snd (Configure env ctx req ConfigureResponse_zero)
       \<and> (Fields ctx ''hostingde_auth_token'' = None \<longrightarrow>
            (\<forall>e \<in> set (snd (Configure env ctx req ConfigureResponse_zero)).
               EntryFields e ''hostingde_auth_token'' = None \<or>
               EntryFields e ''hostingde_auth_token'' = Some (StringField ''***'')))"
proof -
  let ?env' = "env(''HOSTINGDE_AUTH_TOKEN'' := x)"
  let ?cfg' = "(Config req)\<lparr>AuthToken := s\<rparr>"
  have tok: "(local_auth_token ?env' ?cfg' = '''') = (local_auth_token env (Config req) = '''')"
    using assms(2)
    by (cases "IsNull s"; cases "IsNull (AuthToken (Config req))")
       (simp_all add: local_auth_token_def)
  have reach: "reaches_client ?env' (req\<lparr>Config := ?cfg'\<rparr>) = reaches_client env req"
    using assms(1) tok by (simp add: reaches_client_def)
  have diags: "Diagnostics (fst (Configure ?env' ctx (req\<lparr>Config := ?cfg'\<rparr>) ConfigureResponse_zero)) =
         Diagnostics (fst (Configure env ctx req ConfigureResponse_zero))"
    using assms(1) tok by (simp add: Configure_Diagnostics)
  have logged: "snd (Configure ?env' ctx (req\<lparr>Config := ?cfg'\<rparr>) ConfigureResponse_zero) =
         snd (Configure env ctx req ConfigureResponse_zero)"
    by (simp add: Configure_logged reach Info_def Debug_def Emit_masked
          local_account_id_token_indep local_base_url_token_indep)
  have masked: "\<forall>e \<in> set (snd (Configure env ctx req ConfigureResponse_zero)).
               EntryFields e ''hostingde_auth_token'' = None \<or>
               EntryFields e ''hostingde_auth_token'' = Some (StringField ''***'')"
    if "Fields ctx ''hostingde_auth_token'' = None"
    using that
    by (simp add: Configure_logged Info_def Debug_def Emit_masked)
       (simp add: Emit_def ApplyMask_def map_add_def)
  from diags logged masked show ?thesis by blast
qed

text \<open>
  An instance: the token comes from the environment in one run and, another one, from
  the configuration in the other; diagnostics and log agree, and the three log entries
  of the successful run show no such field, the mask and the mask.
\<close>

theorem Configure_auth_token_redacted_witness:
  "Diagnostics (fst (Configure
         ([''HOSTINGDE_AUTH_TOKEN'' \<mapsto> ''envtok''](''HOSTINGDE_AUTH_TOKEN'' := Some ''other''))
         \<lparr>Fields = Map.empty, MaskKeys = []\<rparr>
         (\<lparr>Config = \<lparr>AccountId = StringValue ''acc1'', AuthToken = StringNull,
                     BaseUrl = StringNull\<rparr>, ConfigGetDiags = []\<rparr>
          \<lparr>Config := (Config \<lparr>Config = \<lparr>AccountId = StringValue ''acc1'',
                     AuthToken = StringNull, BaseUrl = StringNull\<rparr>,
                     ConfigGetDiags = []\<rparr>)\<lparr>AuthToken := StringValue ''another''\<rparr>\<rparr>)
         ConfigureResponse_zero)) =
     Diagnostics (fst (Configure [''HOSTINGDE_AUTH_TOKEN'' \<mapsto> ''envtok'']
         \<lparr>Fields = Map.empty, MaskKeys = []\<rparr>
         \<lparr>Config = \<lparr>AccountId = StringValue ''acc1'', AuthToken = StringNull,
                     BaseUrl = StringNull\<rparr>, ConfigGetDiags = []\<rparr>
         ConfigureResponse_zero))
   \<and> snd (Configure
         ([''HOSTINGDE_AUTH_TOKEN'' \<mapsto> ''envtok''](''HOSTINGDE_AUTH_TOKEN'' := Some ''other''))
         \<lparr>Fields = Map.empty, MaskKeys = []\<rparr>
         (\<lparr>Config = \<lparr>AccountId = StringValue ''acc1'', AuthToken = StringNull,
                     BaseUrl = StringNull\<rparr>, ConfigGetDiags = []\<rparr>
          \<lparr>Config := (Config \<lparr>Config = \<lparr>AccountId = StringValue ''acc1'',
                     AuthToken = StringNull, BaseUrl = StringNull\<rparr>,
                     ConfigGetDiags = []\<rparr>)\<lparr>AuthToken := StringValue ''another''\<rparr>\<rparr>)
         ConfigureResponse_zero) =
     snd (Configure [''HOSTINGDE_AUTH_TOKEN'' \<mapsto> ''envtok'']
         \<lparr>Fields = Map.empty, MaskKeys = []\<rparr>
         \<lparr>Config = \<lparr>AccountId = StringValue ''acc1'', AuthToken = StringNull,
                     BaseUrl = StringNull\<rparr>, ConfigGetDiags = []\<rparr>
         ConfigureResponse_zero)
   \<and> map (\<lambda>e. EntryFields e ''hostingde_auth_token'')
       (snd (Configure [''HOSTINGDE_AUTH_TOKEN'' \<mapsto> ''envtok'']
         \<lparr>Fields = Map.empty, MaskKeys = []\<rparr>
         \<lparr>Config = \<lparr>AccountId = StringValue ''acc1'', AuthToken = StringNull,
                     BaseUrl = StringNull\<rparr>, ConfigGetDiags = []\<rparr>
         ConfigureResponse_zero)) =
       [None, Some (StringField ''***''), Some (StringField ''***'')]
   \<and> map Message
       (snd (Configure [''HOSTINGDE_AUTH_TOKEN'' \<mapsto> ''envtok'']
         \<lparr>Fields = Map.empty, MaskKeys = []\<rparr>
         \<lparr>Config = \<lparr>AccountId = StringValue ''acc1'', AuthToken = StringNull,
                     BaseUrl = StringNull\<rparr>, ConfigGetDiags = []\<rparr>
         ConfigureResponse_zero)) =
       [''Configuring hosting.de client'', ''Creating hosting.de client'',
        ''Configured hosting.de client'']"
proof -
  let ?env = "[''HOSTINGDE_AUTH_TOKEN'' \<mapsto> ''envtok''] :: environ"
  let ?req = "\<lparr>Config = \<lparr>AccountId = StringValue ''acc1'', AuthToken = StringNull,
                     BaseUrl = StringNull\<rparr>, ConfigGetDiags = []\<rparr>"
  let ?ctx = "\<lparr>Fields = Map.empty, MaskKeys = []\<rparr>"
  have h1: "IsUnknown (StringValue ''another'') = IsUnknown (AuthToken (Config ?req))"
    by simp
  have h2: "((if \<not> IsNull (StringValue ''another'') then ValueString (StringValue ''another'')
           else Getenv (?env(''HOSTINGDE_AUTH_TOKEN'' := Some ''other'')) ''HOSTINGDE_AUTH_TOKEN'') = '''') =
         ((if \<not> IsNull (AuthToken (Config ?req)) then ValueString (AuthToken (Config ?req))
           else Getenv ?env ''HOSTINGDE_AUTH_TOKEN'') = '''')"
    by (simp add: Getenv_def)
  note t = Configure_auth_token_redacted [OF h1 h2, of ?ctx]
  have m: "map (\<lambda>e. EntryFields e ''hostingde_auth_token'')
       (snd (Configure ?env ?ctx ?req ConfigureResponse_zero)) =
       [None, Some (StringField ''***''), Some (StringField ''***'')]"
    by (simp add: eval_defs Info_def Debug_def Emit_def ApplyMask_def SetField_def
          MaskFieldValuesWithFieldKeys_def)
  have n: "map Message (snd (Configure ?env ?ctx ?req ConfigureResponse_zero)) =
       [''Configuring hosting.de client'', ''Creating hosting.de client'',
        ''Configured hosting.de client'']"
    by (simp add: eval_defs Info_def Debug_def Emit_def)
  from t m n show ?thesis
    by (intro conjI) blast+
qed

text \<open>
  C8 as stated fails when another logged field holds the same string as the auth token.
  With account id and auth token both configured as \<^verbatim>\<open>sekret\<close>, the client is built
  with that token, the second and the third log entry mask \<^verbatim>\<open>hostingde_auth_token\<close>,
  and both show \<^verbatim>\<open>sekret\<close> in clear in \<^verbatim>\<open>hostingde_account_id\<close>: only the field
  of the token is masked, by its key.
\<close>

theorem Configure_token_in_account_id_field_counterexample:
  "map_option authToken (ResourceData (fst (Configure Map.empty
       \<lparr>Fields = Map.empty, MaskKeys = []\<rparr>
       \<lparr>Config = \<lparr>AccountId = StringValue ''sekret'', AuthToken = StringValue ''sekret'',
                   BaseUrl = StringNull\<rparr>, ConfigGetDiags = []\<rparr>
       ConfigureResponse_zero))) = Some ''sekret''
   \<and> EntryFields (snd (Configure Map.empty
       \<lparr>Fields = Map.empty, MaskKeys = []\<rparr>
       \<lparr>Config = \<lparr>AccountId = StringValue ''sekret'', AuthToken = StringValue ''sekret'',
                   BaseUrl = StringNull\<rparr>, ConfigGetDiags = []\<rparr>
       ConfigureResponse_zero) ! 1) ''hostingde_account_id'' = Some (StringField ''sekret'')
   \<and> EntryFields (snd (Configure Map.empty
       \<lparr>Fields = Map.empty, MaskKeys = []\<rparr>
       \<lparr>Config = \<lparr>AccountId = StringValue ''sekret'', AuthToken = StringValue ''sekret'',
                   BaseUrl = StringNull\<rparr>, ConfigGetDiags = []\<rparr>
       ConfigureResponse_zero) ! 2) ''hostingde_account_id'' = Some (StringField ''sekret'')
   \<and> EntryFields (snd (Configure Map.empty
       \<lparr>Fields = Map.empty, MaskKeys = []\<rparr>
       \<lparr>Config = \<lparr>AccountId = StringValue ''sekret'', AuthToken = StringValue ''sekret'',
                   BaseUrl = StringNull\<rparr>, ConfigGetDiags = []\<rparr>
       ConfigureResponse_zero) ! 1) ''hostingde_auth_token'' = Some (StringField ''***'')
   \<and> Message (snd (Configure Map.empty
       \<lparr>Fields = Map.empty, MaskKeys = []\<rparr>
       \<lparr>Config = \<lparr>AccountId = StringValue ''sekret'', AuthToken = StringValue ''sekret'',
                   BaseUrl = StringNull\<rparr>, ConfigGetDiags = []\<rparr>
       ConfigureResponse_zero) ! 1) = ''Creating hosting.de client''"
  by (simp add: eval_defs Info_def Debug_def Emit_def ApplyMask_def SetField_def
        MaskFieldValuesWithFieldKeys_def)

text \<open>
  C9. In every invocation the data-source list is empty and the resource list is the
  zone constructor followed by the record constructor: two entries, different from
  each other.
\<close>

theorem capability_lists_fixed:
  "DataSources p = [] \<and> Resources p = [NewZoneResource, NewRecordResource]
   \<and> length (Resources p) = 2 \<and> distinct (Resources p)"
  by (simp add: DataSources_def Resources_def)

text \<open>
  C10. Let the base URL be unknown and account id and auth token known. Then no error
  diagnostic is on the path \<^verbatim>\<open>base_url\<close>, and with a non-empty auth token resolution
  succeeds with the default endpoint as base URL, whatever \<^verbatim>\<open>HOSTINGDE_BASE_URL\<close>
  holds: the unknown value reads as the empty string and overrides the variable.
\<close>

theorem Configure_unknown_base_url_defaults:
  assumes "\<not> HasError (ConfigGetDiags req)"
    and "BaseUrl (Config req) = StringUnknown"
    and "AccountId (Config req) = StringValue a"
    and "AuthToken (Config req) = StringValue t"
  shows "Some (Root ''base_url'') \<notin>
           set (map Path (Errors (Diagnostics (fst (Configure env ctx req ConfigureResponse_zero)))))
       \<and> (t \<noteq> '''' \<longrightarrow>
            \<not> HasError (Diagnostics (fst (Configure env ctx req ConfigureResponse_zero))) \<and>
            ResourceData (fst (Configure env ctx req ConfigureResponse_zero)) =
              Some \<lparr>accountId = a, authToken = t,
                    baseUrl = ''https://secure.hosting.de/api/dns/v1/json''\<rparr> \<and>
            DataSourceData (fst (Configure env ctx req ConfigureResponse_zero)) =
              Some \<lparr>accountId = a, authToken = t,
                    baseUrl = ''https://secure.hosting.de/api/dns/v1/json''\<rparr>)"
proof -
  have "map fst (map (\<lambda>d. (Path d, Summary d))
          (Errors (Diagnostics (fst (Configure env ctx req ConfigureResponse_zero))))) =
        (if t = '''' then [Some (Root ''auth_token'')] else [])"
    using assms by (simp add: Configure_Errors local_auth_token_def)
  then have paths: "map Path (Errors (Diagnostics (fst (Configure env ctx req ConfigureResponse_zero)))) =
        (if t = '''' then [Some (Root ''auth_token'')] else [])"
    by (simp add: comp_def)
  have reach: "t \<noteq> '''' \<Longrightarrow> reaches_client env req"
    using assms by (simp add: reaches_client_def local_auth_token_def)
  have vals: "local_account_id env (Config req) = a" "local_auth_token env (Config req) = t"
    "local_base_url env (Config req) = ''https://secure.hosting.de/api/dns/v1/json''"
    using assms by (simp_all add: local_defs defaultBaseURL_def)
  show ?thesis
    using reach by (simp add: paths Configure_HasError Configure_slots vals NewClient_def)
qed

text \<open>An instance with the variable set to a URL of its own.\<close>

theorem Configure_unknown_base_url_defaults_witness:
  "\<not> HasError []
   \<and> \<not> HasError (Diagnostics (fst (Configure [''HOSTINGDE_BASE_URL'' \<mapsto> ''https://env.example/api'']
          \<lparr>Fields = Map.empty, MaskKeys = []\<rparr>
          \<lparr>Config = \<lparr>AccountId = StringValue ''acc1'', AuthToken = StringValue ''tok1'',
                      BaseUrl = StringUnknown\<rparr>, ConfigGetDiags = []\<rparr>
          ConfigureResponse_zero)))
   \<and> ResourceData (fst (Configure [''HOSTINGDE_BASE_URL'' \<mapsto> ''https://env.example/api'']
          \<lparr>Fields = Map.empty, MaskKeys = []\<rparr>
          \<lparr>Config = \<lparr>AccountId = StringValue ''acc1'', AuthToken = StringValue ''tok1'',
                      BaseUrl = StringUnknown\<rparr>, ConfigGetDiags = []\<rparr>
          ConfigureResponse_zero)) =
       Some \<lparr>accountId = ''acc1'', authToken = ''tok1'',
             baseUrl = ''https://secure.hosting.de/api/dns/v1/json''\<rparr>"
proof -
  let ?req = "\<lparr>Config = \<lparr>AccountId = StringValue ''acc1'', AuthToken = StringValue ''tok1'',
                      BaseUrl = StringUnknown\<rparr>, ConfigGetDiags = []\<rparr>"
  have h1: "\<not> HasError (ConfigGetDiags ?req)"
    by (simp add: HasError_def)
  have h2: "BaseUrl (Config ?req) = StringUnknown"
    and h3: "AccountId (Config ?req) = StringValue ''acc1''"
    and h4: "AuthToken (Config ?req) = StringValue ''tok1''"
    by simp_all
  from Configure_unknown_base_url_defaults [OF h1 h2 h3 h4,
      of "[''HOSTINGDE_BASE_URL'' \<mapsto> ''https://env.example/api'']"
         "\<lparr>Fields = Map.empty, MaskKeys = []\<rparr>"] h1
  show ?thesis by simp
qed

end
